theory Spec2Isabelle
  imports Main
begin

section \<open>Strings and whitespace\<close>

text \<open>
  A JavaScript string is modelled as a \<^typ>\<open>string\<close>: a list of code units, here those
  below 256. The regular-expression class \<^verbatim>\<open>\s\<close> and \<^verbatim>\<open>String.prototype.trim\<close> use
  the same set of characters (white space and line terminators); in this range these are
  tab, line feed, vertical tab, form feed, carriage return, space and no-break space.
\<close>

abbreviation TAB :: char where "TAB \<equiv> CHR 0x09"
abbreviation LF :: char where "LF \<equiv> CHR 0x0A"
abbreviation CR :: char where "CR \<equiv> CHR 0x0D"
abbreviation SPACE :: char where "SPACE \<equiv> CHR 0x20"

definition is_space :: "char \<Rightarrow> bool" where
  "is_space c \<longleftrightarrow>
     c = TAB \<or> c = LF \<or> c = CHR 0x0B \<or> c = CHR 0x0C \<or> c = CR \<or> c = SPACE \<or> c = CHR 0xA0"

text \<open>\<^verbatim>\<open>Array.prototype.join(separator)\<close> on an array of strings.\<close>

fun join :: "string list \<Rightarrow> string \<Rightarrow> string" where
  "join [] separator = []"
| "join [x] separator = x"
| "join (x # y # ys) separator = x @ separator @ join (y # ys) separator"

text \<open>
  \<^verbatim>\<open>.replace(/\s\s+/g, ' ')\<close>: scanning from the left, every match of two or more
  white-space characters (the match is greedy, so it is a whole run) becomes one space; a
  white-space character that stands alone is kept as it is.
\<close>

function replace_ws_runs :: "string \<Rightarrow> string" where
  "replace_ws_runs [] = []"
| "replace_ws_runs [c] = [c]"
| "replace_ws_runs (c # d # cs) =
     (if is_space c \<and> is_space d then SPACE # replace_ws_runs (dropWhile is_space cs)
      else c # replace_ws_runs (d # cs))"
  by pat_completeness auto
termination
  by (relation "measure length") (auto simp: length_dropWhile_le less_Suc_eq_le le_SucI)

text \<open>
  \<^verbatim>\<open>.replace(/(?:\r\n|\r|\n|\t)/g, '')\<close>: the alternatives are tried in order at each
  position, and every match is deleted.
\<close>

fun replace_breaks :: "string \<Rightarrow> string" where
  "replace_breaks [] = []"
| "replace_breaks [c] = (if c = CR \<or> c = LF \<or> c = TAB then [] else [c])"
| "replace_breaks (c # d # cs) =
     (if c = CR \<and> d = LF then replace_breaks cs
      else if c = CR \<or> c = LF \<or> c = TAB then replace_breaks (d # cs)
      else c # replace_breaks (d # cs))"

text \<open>\<^verbatim>\<open>String.prototype.trim\<close>.\<close>

definition trim :: "string \<Rightarrow> string" where
  "trim s = rev (dropWhile is_space (rev (dropWhile is_space s)))"

text \<open>No two neighbouring characters are both white space.\<close>

fun no_adjacent_ws :: "string \<Rightarrow> bool" where
  "no_adjacent_ws [] = True"
| "no_adjacent_ws [c] = True"
| "no_adjacent_ws (c # d # cs) = (\<not> (is_space c \<and> is_space d) \<and> no_adjacent_ws (d # cs))"

section \<open>QueryBuilder\<close>

text \<open>
  The builder's only field is the array \<^verbatim>\<open>q\<close>; the builder is modelled as that array.
  The argument of \<^verbatim>\<open>add\<close> is a string or an array (whose elements are again strings or
  arrays).
\<close>

datatype partial = Fragment string | Sequence "partial list"

type_synonym QueryBuilder = "string list"

definition new_QueryBuilder :: QueryBuilder where
  "new_QueryBuilder = []"

text \<open>
  \<^verbatim>\<open>add(partial)\<close>: an array is walked with \<^verbatim>\<open>forEach\<close>, calling \<^verbatim>\<open>this.add\<close> on each
  element; anything else is pushed.
\<close>

fun add :: "partial \<Rightarrow> QueryBuilder \<Rightarrow> QueryBuilder" where
  "add (Sequence elements) q = fold add elements q"
| "add (Fragment s) q = q @ [s]"

definition toString :: "QueryBuilder \<Rightarrow> string" where
  "toString q = trim (replace_breaks (replace_ws_runs (join q '' '')))"

text \<open>The fragments of a \<^typ>\<open>partial\<close>, depth first and left to right.\<close>

fun fragments :: "partial \<Rightarrow> string list" where
  "fragments (Fragment s) = [s]"
| "fragments (Sequence elements) = concat (map fragments elements)"

text \<open>
  The reading of \<^verbatim>\<open>add\<close> that flattens one level only, written from the specification's
  words: a string is appended, a sequence of strings is appended element by element, and a
  sequence that holds a sequence is not supported.
\<close>

fun is_Fragment :: "partial \<Rightarrow> bool" where
  "is_Fragment (Fragment s) = True"
| "is_Fragment (Sequence elements) = False"

fun spec_add_one_level :: "partial \<Rightarrow> QueryBuilder \<Rightarrow> QueryBuilder option" where
  "spec_add_one_level (Fragment s) q = Some (q @ [s])"
| "spec_add_one_level (Sequence elements) q =
     (if list_all is_Fragment elements then Some (q @ concat (map fragments elements)) else None)"

section \<open>JavaScript values\<close>

text \<open>
  The values that a parsed JSON body or an object literal of such data can hold, and
  \<^verbatim>\<open>undefined\<close>. Numbers are the integers; an object is the list of its own enumerable
  properties in the order \<^verbatim>\<open>Object.keys\<close> gives them, with distinct keys.
\<close>

datatype jsval =
    Undefined
  | Null
  | Bool bool
  | Num int
  | Str string
  | Arr "jsval list"
  | Obj "(string \<times> jsval) list"

text \<open>What a \<^verbatim>\<open>throw\<close> or a rejected promise carries.\<close>

datatype thrown =
    Error string
  | TypeError
  | ReferenceError string
  | Thrown jsval

text \<open>The specification's names for the values the code throws.\<close>

definition ReuseError :: thrown where
  "ReuseError = Error ''Can't reuse transaction''"

definition ConfigurationError :: thrown where
  "ConfigurationError = Error ''Attempt to use cacher without calling initCacheDB()''"

definition UnsupportedPropertyTypeError :: thrown where
  "UnsupportedPropertyTypeError = Error ''property type not supported''"

definition TransactionFailedError :: "string \<Rightarrow> thrown" where
  "TransactionFailedError statusText = Error statusText"

definition CypherError :: "jsval \<Rightarrow> thrown" where
  "CypherError errors = Thrown errors"

definition CommitFailedError :: thrown where
  "CommitFailedError = Error ''commit failed''"

text \<open>Sequencing of steps that may throw: the first throw ends the computation.\<close>

definition and_then :: "thrown + 'a \<Rightarrow> ('a \<Rightarrow> thrown + 'b) \<Rightarrow> thrown + 'b" where
  "and_then r f = (case r of Inl e \<Rightarrow> Inl e | Inr v \<Rightarrow> f v)"

text \<open>\<^verbatim>\<open>ToBoolean\<close>, as \<^verbatim>\<open>!x\<close> and \<^verbatim>\<open>if (x)\<close> apply it.\<close>

fun truthy :: "jsval \<Rightarrow> bool" where
  "truthy Undefined = False"
| "truthy Null = False"
| "truthy (Bool b) = b"
| "truthy (Num n) = (n \<noteq> 0)"
| "truthy (Str s) = (s \<noteq> [])"
| "truthy (Arr xs) = True"
| "truthy (Obj kvs) = True"

text \<open>The \<^verbatim>\<open>typeof\<close> operator. No value has the type \<^verbatim>\<open>'array'\<close>.\<close>

fun typeof :: "jsval \<Rightarrow> string" where
  "typeof Undefined = ''undefined''"
| "typeof Null = ''object''"
| "typeof (Bool b) = ''boolean''"
| "typeof (Num n) = ''number''"
| "typeof (Str s) = ''string''"
| "typeof (Arr xs) = ''object''"
| "typeof (Obj kvs) = ''object''"

text \<open>Decimal digits of a number, as \<^verbatim>\<open>Number.prototype.toString\<close> prints an integer.\<close>

fun digits :: "nat \<Rightarrow> string" where
  "digits n = (if n < 10 then [''0123456789'' ! n] else digits (n div 10) @ [''0123456789'' ! (n mod 10)])"

declare digits.simps [simp del]

definition number_to_string :: "int \<Rightarrow> string" where
  "number_to_string n = (if n < 0 then CHR ''-'' # digits (nat (- n)) else digits (nat n))"

text \<open>
  The substitution \<^verbatim>\<open>${v}\<close> of a template literal (\<^verbatim>\<open>ToString\<close>). In an array,
  \<^verbatim>\<open>undefined\<close> and \<^verbatim>\<open>null\<close> elements print as the empty string.
\<close>

fun to_string :: "jsval \<Rightarrow> string" where
  "to_string Undefined = ''undefined''"
| "to_string Null = ''null''"
| "to_string (Bool b) = (if b then ''true'' else ''false'')"
| "to_string (Num n) = number_to_string n"
| "to_string (Str s) = s"
| "to_string (Arr xs) =
     join (map (\<lambda>x. if x = Undefined \<or> x = Null then [] else to_string x) xs) '',''"
| "to_string (Obj kvs) = ''[object Object]''"

text \<open>
  Reading a property by name, for the names the source reads (\<^verbatim>\<open>data\<close>, \<^verbatim>\<open>columns\<close>,
  \<^verbatim>\<open>row\<close>, \<^verbatim>\<open>errors\<close>, \<^verbatim>\<open>results\<close>, \<^verbatim>\<open>commit\<close>, \<^verbatim>\<open>length\<close>): on \<^verbatim>\<open>undefined\<close> and
  \<^verbatim>\<open>null\<close> the read throws a TypeError; arrays and strings have a \<^verbatim>\<open>length\<close>; a
  property that is not there reads as \<^verbatim>\<open>undefined\<close>.
\<close>

definition lookup :: "(string \<times> jsval) list \<Rightarrow> string \<Rightarrow> jsval" where
  "lookup kvs k = (case map_of kvs k of None \<Rightarrow> Undefined | Some v \<Rightarrow> v)"

fun get_prop :: "jsval \<Rightarrow> string \<Rightarrow> thrown + jsval" where
  "get_prop Undefined k = Inl TypeError"
| "get_prop Null k = Inl TypeError"
| "get_prop (Bool b) k = Inr Undefined"
| "get_prop (Num n) k = Inr Undefined"
| "get_prop (Str s) k = Inr (if k = ''length'' then Num (int (length s)) else Undefined)"
| "get_prop (Arr xs) k = Inr (if k = ''length'' then Num (int (length xs)) else Undefined)"
| "get_prop (Obj kvs) k = Inr (lookup kvs k)"

text \<open>Reading an element by index, \<^verbatim>\<open>v[i]\<close>.\<close>

fun get_index :: "jsval \<Rightarrow> nat \<Rightarrow> thrown + jsval" where
  "get_index Undefined i = Inl TypeError"
| "get_index Null i = Inl TypeError"
| "get_index (Bool b) i = Inr Undefined"
| "get_index (Num n) i = Inr Undefined"
| "get_index (Str s) i = Inr (if i < length s then Str [s ! i] else Undefined)"
| "get_index (Arr xs) i = Inr (if i < length xs then xs ! i else Undefined)"
| "get_index (Obj kvs) i = Inr (lookup kvs (number_to_string (int i)))"

section \<open>Response helpers of the facade\<close>

text \<open>
  \<^verbatim>\<open>getSimpleData(result)\<close>. The variable \<^verbatim>\<open>result\<close> is reassigned to its first element;
  \<^verbatim>\<open>ret\<close> starts as \<^verbatim>\<open>null\<close>.
\<close>

definition getSimpleData :: "jsval \<Rightarrow> thrown + jsval" where
  "getSimpleData result0 =
     and_then (get_index result0 0) (\<lambda>result.
       if \<not> truthy result then Inr Null
       else and_then (get_prop result ''data'') (\<lambda>data.
         if \<not> truthy data then Inr Null
         else and_then (get_prop data ''length'') (\<lambda>data_length.
           if data_length = Num 0 then Inr Null
           else and_then (get_prop result ''columns'') (\<lambda>columns.
             and_then (get_prop columns ''length'') (\<lambda>columns_length.
               if columns_length = Num 1 then
                 and_then (get_index data 0) (\<lambda>data0.
                   if typeof data0 = ''object''
                   then and_then (get_prop data0 ''row'') (\<lambda>row. get_index row 0)
                   else get_index data0 0)
               else Inr Null)))))"

text \<open>
  \<^verbatim>\<open>toProps(obj)\<close>: the callback of \<^verbatim>\<open>forEach\<close> for one key, the loop over
  \<^verbatim>\<open>Object.keys(obj)\<close> (a throw in the callback ends it), and the final \<^verbatim>\<open>join\<close>.
\<close>

definition toProps_element :: "(string \<times> jsval) list \<Rightarrow> string \<Rightarrow> thrown + string" where
  "toProps_element obj k =
     (if typeof (lookup obj k) = ''string'' then Inr (k @ '':\"'' @ to_string (lookup obj k) @ ''\"'')
      else if typeof (lookup obj k) = ''number'' then Inr (k @ '':'' @ to_string (lookup obj k))
      else if typeof (lookup obj k) = ''boolean'' then Inr (k @ '':'' @ to_string (lookup obj k))
      else if typeof (lookup obj k) = ''array'' then Inr (k @ '':[]'')
      else Inl (Error ''property type not supported''))"

fun toProps_forEach :: "(string \<times> jsval) list \<Rightarrow> string list \<Rightarrow> string list \<Rightarrow> thrown + string list" where
  "toProps_forEach obj [] ret = Inr ret"
| "toProps_forEach obj (k # objKeys) ret =
     and_then (toProps_element obj k) (\<lambda>s. toProps_forEach obj objKeys (ret @ [s]))"

definition toProps :: "(string \<times> jsval) list \<Rightarrow> thrown + string" where
  "toProps obj = and_then (toProps_forEach obj (map fst obj) []) (\<lambda>ret. Inr (join ret '', ''))"

section \<open>Transaction\<close>

text \<open>
  The outside world. A cacher object (package \<^verbatim>\<open>fwsp-cacher\<close>) is given by what the promise
  of \<^verbatim>\<open>getData(key)\<close> settles to under the prefix set before: \<open>Inr\<close> the cached data,
  \<open>Inl\<close> the reason of the rejection. \<^verbatim>\<open>fetch\<close> (package \<^verbatim>\<open>node-fetch\<close>) is given by what
  its promise settles to for a request: \<open>Inl\<close> a rejection, \<open>Inr\<close> a response, whose
  \<^verbatim>\<open>json()\<close> promise settles in turn to the parsed body or rejects. One call of
  \<^verbatim>\<open>execute\<close> issues no request twice, so the answers are a function of the request.
\<close>

record Cacher =
  getData :: "string \<Rightarrow> string \<Rightarrow> thrown + jsval"

record StatementBatchEntry =
  statement :: string
  parameters :: jsval

record request =
  url :: jsval
  http_method :: string  \<comment> \<open>the option \<^verbatim>\<open>method\<close>\<close>
  headers :: "(string \<times> string) list"
  body :: "StatementBatchEntry list option"

record response =
  status :: int
  statusText :: string
  json :: "thrown + jsval"

text \<open>
  The module reads the identifier \<^verbatim>\<open>cacher\<close>, which it declares nowhere: the read goes to
  the global scope. \<open>global_cacher\<close> is the cacher object bound there, \<open>None\<close> when the
  identifier is unbound, which is the case unless the embedding program defines such a global.
\<close>

record env =
  fetch :: "request \<Rightarrow> thrown + response"
  global_cacher :: "Cacher option"

text \<open>Modelled from the spec: the status constants of the package \<^verbatim>\<open>fwsp-server-response\<close>,
  200 (OK) and 201 (Created).\<close>

definition HTTP_OK :: int where
  "HTTP_OK = 200"

definition HTTP_CREATED :: int where
  "HTTP_CREATED = 201"

text \<open>
  The fields the constructor sets, and \<^verbatim>\<open>cachable\<close>: a property that
  \<^verbatim>\<open>_processTransaction\<close> reads and that neither the constructor nor any member function assigns, so
  that it reads as \<^verbatim>\<open>undefined\<close> on every transaction the class builds.
\<close>

record Transaction =
  used :: bool
  auth :: string
  cacher :: "Cacher option"
  cached :: bool
  cachePrefix :: string
  cacheKey :: string
  cacheDuration :: int
  transactionUrl :: string
  statements :: "StatementBatchEntry list"
  cachable :: jsval

definition new_Transaction :: "string \<Rightarrow> string \<Rightarrow> Cacher option \<Rightarrow> Transaction" where
  "new_Transaction transactionUrl' auth' cacher' =
     \<lparr>used = False, auth = auth', cacher = cacher', cached = False, cachePrefix = [],
      cacheKey = [], cacheDuration = 0, transactionUrl = transactionUrl', statements = [],
      cachable = Undefined\<rparr>"

definition addQuery :: "QueryBuilder \<Rightarrow> jsval \<Rightarrow> Transaction \<Rightarrow> thrown + Transaction" where
  "addQuery queryBuilder params t =
     (if used t then Inl (Error ''Can't reuse transaction'')
      else Inr (t\<lparr>statements := statements t @
                  [\<lparr>statement = toString queryBuilder, parameters = params\<rparr>]\<rparr>))"

definition cacheable :: "string \<Rightarrow> string \<Rightarrow> int \<Rightarrow> Transaction \<Rightarrow> thrown + Transaction" where
  "cacheable prefix key duration t =
     (if cacher t = None then Inl (Error ''Attempt to use cacher without calling initCacheDB()'')
      else Inr (t\<lparr>cached := True, cachePrefix := prefix, cacheKey := key,
                  cacheDuration := duration\<rparr>))"

text \<open>What a run does to the outside, in order.\<close>

datatype event =
    Fetch request
  | SetCachePrefix string
  | GetData string
  | SetData string jsval int
  | ConsoleLog thrown

text \<open>
  How the promise returned by \<^verbatim>\<open>execute\<close> settles. \<open>Unmodelled\<close> marks the one place where
  the code needs a conversion this model does not have (see \<open>greater_zero\<close>).
\<close>

datatype promise = Resolved jsval | Rejected thrown | Unmodelled

record run =
  txn :: Transaction
  settled :: promise
  trace :: "event list"

text \<open>
  \<^verbatim>\<open>x > 0\<close>: the operand is converted to a number; \<^verbatim>\<open>undefined\<close> gives NaN and the
  comparison is false. The conversion of a string, array or object operand is not modelled
  (\<open>None\<close>); the operand is the \<^verbatim>\<open>length\<close> of \<^verbatim>\<open>json.errors\<close>, a number whenever
  \<^verbatim>\<open>errors\<close> is an array or a string.
\<close>

fun greater_zero :: "jsval \<Rightarrow> bool option" where
  "greater_zero Undefined = Some False"
| "greater_zero Null = Some False"
| "greater_zero (Bool b) = Some b"
| "greater_zero (Num n) = Some (0 < n)"
| "greater_zero (Str s) = None"
| "greater_zero (Arr xs) = None"
| "greater_zero (Obj kvs) = None"

definition request_headers :: "Transaction \<Rightarrow> (string \<times> string) list" where
  "request_headers t =
     [(''content-type'', ''application/json''),
      (''Accept'', ''application/json; charset=UTF-8''),
      (''Authorization'', ''Basic '' @ auth t)]"

text \<open>The three requests. The body of the first is the JSON text of the statements.\<close>

definition post_request :: "Transaction \<Rightarrow> request" where
  "post_request t =
     \<lparr>url = Str (transactionUrl t), http_method = ''post'', headers = request_headers t,
      body = Some (statements t)\<rparr>"

definition delete_request :: "Transaction \<Rightarrow> request" where
  "delete_request t =
     \<lparr>url = Str (transactionUrl t), http_method = ''delete'', headers = request_headers t,
      body = None\<rparr>"

definition commit_request :: "Transaction \<Rightarrow> jsval \<Rightarrow> request" where
  "commit_request t commit =
     \<lparr>url = commit, http_method = ''post'', headers = request_headers t, body = None\<rparr>"

text \<open>
  The third \<^verbatim>\<open>then\<close> of \<^verbatim>\<open>_processTransaction\<close>, on the response to the commit request.
  The promise of \<^verbatim>\<open>setData\<close> is dropped.
\<close>

definition on_commit_response ::
  "env \<Rightarrow> Transaction \<Rightarrow> jsval \<Rightarrow> response \<Rightarrow> promise \<times> event list" where
  "on_commit_response e t result res =
     (if status res = HTTP_OK then
        (if truthy (cachable t) then
           (if cacher t = None then
              (Rejected (Error ''Attempt to use cacher without calling initCacheDB()''), [])
            else
              (case global_cacher e of
                 None \<Rightarrow> (Rejected (ReferenceError ''cacher''), [])
               | Some c \<Rightarrow>
                   (Resolved result,
                    [SetCachePrefix (cachePrefix t),
                     SetData (cacheKey t) result (cacheDuration t)])))
         else (Resolved result, []))
      else (Rejected (Error ''commit failed''), []))"

text \<open>
  The second \<^verbatim>\<open>then\<close>, on the parsed body of the first response: \<^verbatim>\<open>json.errors\<close> is
  thrown as it is when its length is positive; otherwise \<^verbatim>\<open>json.results\<close> is kept and the
  commit request goes to \<^verbatim>\<open>json.commit\<close>.
\<close>

definition on_json :: "env \<Rightarrow> Transaction \<Rightarrow> jsval \<Rightarrow> promise \<times> event list" where
  "on_json e t js =
     (case get_prop js ''errors'' of
        Inl err \<Rightarrow> (Rejected err, [])
      | Inr errors \<Rightarrow>
     (case get_prop errors ''length'' of
        Inl err \<Rightarrow> (Rejected err, [])
      | Inr errors_length \<Rightarrow>
     (case greater_zero errors_length of
        None \<Rightarrow> (Unmodelled, [])
      | Some True \<Rightarrow> (Rejected (Thrown errors), [])
      | Some False \<Rightarrow>
     (case get_prop js ''results'' of
        Inl err \<Rightarrow> (Rejected err, [])
      | Inr result \<Rightarrow>
     (case get_prop js ''commit'' of
        Inl err \<Rightarrow> (Rejected err, [])
      | Inr commit \<Rightarrow>
     (case fetch e (commit_request t commit) of
        Inl err \<Rightarrow> (Rejected err, [Fetch (commit_request t commit)])
      | Inr res \<Rightarrow>
          (fst (on_commit_response e t result res),
           Fetch (commit_request t commit) # snd (on_commit_response e t result res))))))))"

text \<open>
  The first \<^verbatim>\<open>then\<close>, on the response to the batch request. The promise of the DELETE
  request is dropped: nothing reads how it settles.
\<close>

definition on_response :: "env \<Rightarrow> Transaction \<Rightarrow> response \<Rightarrow> promise \<times> event list" where
  "on_response e t res =
     (if status res \<noteq> HTTP_OK \<and> status res \<noteq> HTTP_CREATED then
        (Rejected (Error (statusText res)), [Fetch (delete_request t)])
      else
        (case json res of
           Inl err \<Rightarrow> (Rejected err, [])
         | Inr js \<Rightarrow> on_json e t js))"

text \<open>
  \<^verbatim>\<open>_processTransaction\<close> has a synchronous part, which sends the batch request, registers
  the callbacks and sets \<^verbatim>\<open>used\<close>, and the callbacks, which run when the answers arrive
  and end in \<^verbatim>\<open>resolve\<close> or, through \<^verbatim>\<open>.catch(reject)\<close>, in \<^verbatim>\<open>reject\<close>. The callbacks
  assign no field of the transaction.
\<close>

definition processTransaction_begin :: "Transaction \<Rightarrow> Transaction \<times> event list" where
  "processTransaction_begin t = (t\<lparr>used := True\<rparr>, [Fetch (post_request t)])"

definition processTransaction_callbacks :: "env \<Rightarrow> Transaction \<Rightarrow> promise \<times> event list" where
  "processTransaction_callbacks e t =
     (case fetch e (post_request t) of
        Inl err \<Rightarrow> (Rejected err, [])
      | Inr res \<Rightarrow> on_response e t res)"

definition processTransaction :: "env \<Rightarrow> Transaction \<Rightarrow> run" where
  "processTransaction e t =
     \<lparr>txn = fst (processTransaction_begin t),
      settled = fst (processTransaction_callbacks e (fst (processTransaction_begin t))),
      trace = snd (processTransaction_begin t) @
              snd (processTransaction_callbacks e (fst (processTransaction_begin t)))\<rparr>"

text \<open>
  \<^verbatim>\<open>execute()\<close>. A throw inside the executor of \<^verbatim>\<open>new Promise\<close> rejects the promise; the
  read of the unbound identifier \<^verbatim>\<open>cacher\<close> is such a throw.
\<close>

definition execute :: "env \<Rightarrow> Transaction \<Rightarrow> run" where
  "execute e t =
     (if cached t then
        (case global_cacher e of
           None \<Rightarrow> \<lparr>txn = t, settled = Rejected (ReferenceError ''cacher''), trace = []\<rparr>
         | Some c \<Rightarrow>
             (case getData c (cachePrefix t) (cacheKey t) of
                Inr cachedData \<Rightarrow>
                  \<lparr>txn = t, settled = Resolved cachedData,
                   trace = [SetCachePrefix (cachePrefix t), GetData (cacheKey t)]\<rparr>
              | Inl reason \<Rightarrow>
                  (processTransaction e t)
                    \<lparr>trace := [SetCachePrefix (cachePrefix t), GetData (cacheKey t),
                               ConsoleLog reason] @ trace (processTransaction e t)\<rparr>))
      else processTransaction e t)"

text \<open>
  The calls a program can make on a transaction, and the transaction each leaves behind (a
  call that throws leaves it as it was).
\<close>

datatype call =
    AddQuery QueryBuilder jsval
  | Cacheable string string int
  | Execute env

fun after_call :: "call \<Rightarrow> Transaction \<Rightarrow> Transaction" where
  "after_call (AddQuery queryBuilder params) t =
     (case addQuery queryBuilder params t of Inl err \<Rightarrow> t | Inr t' \<Rightarrow> t')"
| "after_call (Cacheable prefix key duration) t =
     (case cacheable prefix key duration t of Inl err \<Rightarrow> t | Inr t' \<Rightarrow> t')"
| "after_call (Execute e) t = txn (execute e t)"

text \<open>Whether a run sent any request.\<close>

fun is_Fetch :: "event \<Rightarrow> bool" where
  "is_Fetch (Fetch r) = True"
| "is_Fetch (SetCachePrefix prefix) = False"
| "is_Fetch (GetData key) = False"
| "is_Fetch (SetData key v duration) = False"
| "is_Fetch (ConsoleLog reason) = False"

fun is_SetData :: "event \<Rightarrow> bool" where
  "is_SetData (SetData key v duration) = True"
| "is_SetData (Fetch r) = False"
| "is_SetData (SetCachePrefix prefix) = False"
| "is_SetData (GetData key) = False"
| "is_SetData (ConsoleLog reason) = False"

text \<open>
  Whether \<^verbatim>\<open>execute\<close> reaches \<^verbatim>\<open>_processTransaction\<close>: at once when the transaction is
  not marked as cached, otherwise when the global cacher is bound and its read is rejected.
\<close>

definition network_protocol_runs :: "env \<Rightarrow> Transaction \<Rightarrow> bool" where
  "network_protocol_runs e t \<longleftrightarrow>
     (if cached t then
        (case global_cacher e of None \<Rightarrow> False
         | Some c \<Rightarrow> isl (getData c (cachePrefix t) (cacheKey t)))
      else True)"

section \<open>Example inputs\<close>

text \<open>
  A database that accepts the batch (201, no errors, one result and a commit URL) and then
  the commit (200); a database that answers 404; a cache that holds an entry, and one
  that holds none.
\<close>

definition example_results :: jsval where
  "example_results =
     Arr [Obj [(''columns'', Arr [Str ''n'']), (''data'', Arr [Obj [(''row'', Arr [Num 1])]])]]"

definition example_fetch :: "request \<Rightarrow> thrown + response" where
  "example_fetch r =
     (if http_method r = ''post'' \<and> body r \<noteq> None then
        Inr \<lparr>status = 201, statusText = ''Created'',
             json = Inr (Obj [(''commit'', Str ''http://127.0.0.1:7474/db/data/transaction/1/commit''),
                              (''results'', example_results),
                              (''errors'', Arr [])])\<rparr>
      else if http_method r = ''post'' then
        Inr \<lparr>status = 200, statusText = ''OK'',
             json = Inr (Obj [(''results'', Arr []), (''errors'', Arr [])])\<rparr>
      else Inl (Error ''connection refused''))"

definition not_found_fetch :: "request \<Rightarrow> thrown + response" where
  "not_found_fetch r = Inr \<lparr>status = 404, statusText = ''Not Found'', json = Inl (Error ''invalid json'')\<rparr>"

definition cypher_error_fetch :: "request \<Rightarrow> thrown + response" where
  "cypher_error_fetch r =
     Inr \<lparr>status = 200, statusText = ''OK'',
          json = Inr (Obj [(''results'', Arr []), (''errors'', Arr [Obj [(''code'', Str ''X'')]])])\<rparr>"

definition cache_hit :: Cacher where
  "cache_hit = \<lparr>getData = (\<lambda>prefix key. Inr (Arr [Str ''cached'']))\<rparr>"

definition cache_miss :: Cacher where
  "cache_miss = \<lparr>getData = (\<lambda>prefix key. Inl (Error ''not found''))\<rparr>"

definition example_transaction :: "Cacher option \<Rightarrow> Transaction" where
  "example_transaction c =
     after_call (AddQuery [''RETURN 1''] (Obj []))
       (new_Transaction ''http://127.0.0.1:7474/db/data/transaction'' [] c)"

definition example_cached_transaction :: "Cacher \<Rightarrow> Transaction" where
  "example_cached_transaction c =
     after_call (Cacheable ''students'' ''all'' 60) (example_transaction (Some c))"

section \<open>Properties of the QueryBuilder\<close>

subsection \<open>White space in the rendered statement\<close>

lemma no_adjacent_ws_Cons:
  "no_adjacent_ws (c # s) \<longleftrightarrow> (s = [] \<or> \<not> (is_space c \<and> is_space (hd s))) \<and> no_adjacent_ws s"
  by (cases s) auto

lemma no_adjacent_ws_append:
  "no_adjacent_ws (xs @ ys) \<longleftrightarrow>
     no_adjacent_ws xs \<and> no_adjacent_ws ys \<and>
     (xs = [] \<or> ys = [] \<or> \<not> (is_space (last xs) \<and> is_space (hd ys)))"
proof (induction xs)
  case Nil
  show ?case by simp
next
  case (Cons x xs)
  show ?case
  proof (cases xs)
    case Nil
    then show ?thesis by (auto simp: no_adjacent_ws_Cons)
  next
    case (Cons y zs)
    with Cons.IH show ?thesis by (auto simp: no_adjacent_ws_Cons)
  qed
qed

lemma replace_ws_runs_Nil: "replace_ws_runs s = [] \<longleftrightarrow> s = []"
  by (induction s rule: replace_ws_runs.induct) auto

lemma replace_ws_runs_hd:
  "s \<noteq> [] \<Longrightarrow> \<not> is_space (hd s) \<Longrightarrow> hd (replace_ws_runs s) = hd s"
  by (induction s rule: replace_ws_runs.induct) auto

lemma dropWhile_hd: "dropWhile P s \<noteq> [] \<Longrightarrow> \<not> P (hd (dropWhile P s))"
  by (simp add: hd_dropWhile)

lemma SPACE_is_space: "is_space SPACE"
  by (simp add: is_space_def)

lemma no_adjacent_ws_replace_ws_runs: "no_adjacent_ws (replace_ws_runs s)"
proof (induction s rule: replace_ws_runs.induct)
  case 1
  show ?case by simp
next
  case (2 c)
  show ?case by simp
next
  case (3 c d cs)
  show ?case
  proof (cases "is_space c \<and> is_space d")
    case True
    with 3 have ih: "no_adjacent_ws (replace_ws_runs (dropWhile is_space cs))" by simp
    have "dropWhile is_space cs \<noteq> [] \<Longrightarrow>
            \<not> is_space (hd (replace_ws_runs (dropWhile is_space cs)))"
      by (simp add: replace_ws_runs_hd hd_dropWhile)
    with True ih show ?thesis
      by (auto simp: no_adjacent_ws_Cons replace_ws_runs_Nil)
  next
    case False
    with 3 have ih: "no_adjacent_ws (replace_ws_runs (d # cs))" by simp
    have "is_space c \<Longrightarrow> hd (replace_ws_runs (d # cs)) = d"
      using False replace_ws_runs_hd [of "d # cs"] by simp
    with False ih show ?thesis
      by (auto simp: no_adjacent_ws_Cons)
  qed
qed

lemma replace_breaks_filter:
  "replace_breaks s = filter (\<lambda>c. c \<noteq> CR \<and> c \<noteq> LF \<and> c \<noteq> TAB) s"
  by (induction s rule: replace_breaks.induct) auto

lemma no_adjacent_ws_filter:
  assumes "\<And>c. \<not> P c \<Longrightarrow> is_space c"
  shows "no_adjacent_ws s \<Longrightarrow> no_adjacent_ws (filter P s)"
proof (induction s)
  case Nil
  show ?case by simp
next
  case (Cons c s)
  then have ih: "no_adjacent_ws (filter P s)" by (simp add: no_adjacent_ws_Cons)
  show ?case
  proof (cases "P c")
    case False
    with ih show ?thesis by simp
  next
    case True
    show ?thesis
    proof (cases "is_space c")
      case False
      with True ih show ?thesis by (simp add: no_adjacent_ws_Cons)
    next
      case sp: True
      show ?thesis
      proof (cases s)
        case Nil
        with True show ?thesis by simp
      next
        case (Cons d ds)
        with Cons.prems sp have "\<not> is_space d" by simp
        with assms have "P d" by blast
        with True Cons ih \<open>\<not> is_space d\<close> show ?thesis by (simp add: no_adjacent_ws_Cons)
      qed
    qed
  qed
qed

lemma no_adjacent_ws_dropWhile: "no_adjacent_ws s \<Longrightarrow> no_adjacent_ws (dropWhile P s)"
proof -
  assume a: "no_adjacent_ws s"
  have "no_adjacent_ws (takeWhile P s @ dropWhile P s)" using a by simp
  then show ?thesis unfolding no_adjacent_ws_append by blast
qed

lemma no_adjacent_ws_butlast_ws:
  "no_adjacent_ws s \<Longrightarrow> no_adjacent_ws (rev (dropWhile P (rev s)))"
proof -
  assume a: "no_adjacent_ws s"
  have "s = rev (dropWhile P (rev s)) @ rev (takeWhile P (rev s))"
    by (metis rev_append rev_rev_ident takeWhile_dropWhile_id)
  with a have "no_adjacent_ws (rev (dropWhile P (rev s)) @ rev (takeWhile P (rev s)))" by simp
  then show ?thesis unfolding no_adjacent_ws_append by blast
qed

lemma no_adjacent_ws_trim: "no_adjacent_ws s \<Longrightarrow> no_adjacent_ws (trim s)"
  by (simp add: trim_def no_adjacent_ws_dropWhile no_adjacent_ws_butlast_ws)

lemma no_adjacent_ws_nth:
  "no_adjacent_ws s \<Longrightarrow> Suc i < length s \<Longrightarrow> \<not> (is_space (s ! i) \<and> is_space (s ! Suc i))"
proof (induction s arbitrary: i rule: no_adjacent_ws.induct)
  case 1
  then show ?case by simp
next
  case (2 c)
  then show ?case by simp
next
  case (3 c d cs)
  then show ?case by (cases i) auto
qed

lemma set_trim: "set (trim s) \<subseteq> set s"
proof -
  have "set (trim s) \<subseteq> set (dropWhile is_space s)"
    unfolding trim_def using set_dropWhileD by fastforce
  also have "\<dots> \<subseteq> set s" using set_dropWhileD by fastforce
  finally show ?thesis .
qed

lemma trim_hd: "trim s \<noteq> [] \<Longrightarrow> \<not> is_space (hd (trim s))"
proof -
  assume ne: "trim s \<noteq> []"
  let ?t = "dropWhile is_space s"
  have t: "?t = trim s @ rev (takeWhile is_space (rev ?t))"
    unfolding trim_def by (metis rev_append rev_rev_ident takeWhile_dropWhile_id)
  with ne have "hd ?t = hd (trim s)" by (metis hd_append2)
  moreover from ne have "?t \<noteq> []" unfolding trim_def by (auto dest: set_dropWhileD)
  ultimately show ?thesis using hd_dropWhile [of is_space s] by simp
qed

lemma trim_last: "trim s \<noteq> [] \<Longrightarrow> \<not> is_space (last (trim s))"
proof -
  assume ne: "trim s \<noteq> []"
  then have "dropWhile is_space (rev (dropWhile is_space s)) \<noteq> []" by (simp add: trim_def)
  then have "\<not> is_space (hd (dropWhile is_space (rev (dropWhile is_space s))))"
    by (rule dropWhile_hd)
  with ne show ?thesis by (simp add: trim_def last_rev)
qed

text \<open>
  Claim C7. Whatever fragments the builder holds, the string \<^verbatim>\<open>toString\<close> renders has
  no line feed, no carriage return and no tab, has no two spaces in a row, and neither
  starts nor ends with a white-space character.
\<close>

theorem toString_clean:
  "LF \<notin> set (toString q) \<and> CR \<notin> set (toString q) \<and> TAB \<notin> set (toString q) \<and>
   (\<forall>i. Suc i < length (toString q) \<longrightarrow>
        \<not> (toString q ! i = SPACE \<and> toString q ! Suc i = SPACE)) \<and>
   (toString q \<noteq> [] \<longrightarrow> \<not> is_space (hd (toString q)) \<and> \<not> is_space (last (toString q)))"
proof -
  let ?s = "replace_breaks (replace_ws_runs (join q '' ''))"
  have r: "toString q = trim ?s" by (simp add: toString_def)
  have "LF \<notin> set ?s \<and> CR \<notin> set ?s \<and> TAB \<notin> set ?s"
    by (simp add: replace_breaks_filter)
  with set_trim [of ?s] have breaks: "LF \<notin> set (trim ?s) \<and> CR \<notin> set (trim ?s) \<and> TAB \<notin> set (trim ?s)"
    by blast
  have "no_adjacent_ws ?s"
    unfolding replace_breaks_filter
    by (rule no_adjacent_ws_filter) (auto simp: is_space_def no_adjacent_ws_replace_ws_runs)
  then have adj: "no_adjacent_ws (trim ?s)" by (rule no_adjacent_ws_trim)
  have pairs: "\<forall>i. Suc i < length (trim ?s) \<longrightarrow> \<not> (trim ?s ! i = SPACE \<and> trim ?s ! Suc i = SPACE)"
    using no_adjacent_ws_nth [OF adj] SPACE_is_space by metis
  show ?thesis
    unfolding r using breaks pairs trim_hd [of ?s] trim_last [of ?s] by blast
qed

theorem toString_clean_witness:
  "toString [''MATCH  (s)\<newline>'', '' RETURN s ''] \<noteq> [] \<and>
   Suc 5 < length (toString [''MATCH  (s)\<newline>'', '' RETURN s '']) \<and>
   \<not> (toString [''MATCH  (s)\<newline>'', '' RETURN s ''] ! 5 = SPACE \<and>
      toString [''MATCH  (s)\<newline>'', '' RETURN s ''] ! Suc 5 = SPACE) \<and>
   \<not> is_space (hd (toString [''MATCH  (s)\<newline>'', '' RETURN s ''])) \<and>
   \<not> is_space (last (toString [''MATCH  (s)\<newline>'', '' RETURN s '']))"
proof -
  have v: "toString [''MATCH  (s)\<newline>'', '' RETURN s ''] = ''MATCH (s) RETURN s''"
    by (simp add: toString_def trim_def is_space_def)
  then have "toString [''MATCH  (s)\<newline>'', '' RETURN s ''] \<noteq> []"
    and "Suc 5 < length (toString [''MATCH  (s)\<newline>'', '' RETURN s ''])"
    by simp_all
  with toString_clean [of "[''MATCH  (s)\<newline>'', '' RETURN s '']"] show ?thesis
    by blast
qed

subsection \<open>Flattening in \<^verbatim>\<open>add\<close>\<close>

lemma fold_add_fragments:
  "(\<And>x q. x \<in> set elements \<Longrightarrow> add x q = q @ fragments x) \<Longrightarrow>
   fold add elements q = q @ concat (map fragments elements)"
  by (induction elements arbitrary: q) simp_all

text \<open>
  Claim C8, as amended. \<^verbatim>\<open>add\<close> takes a string or a sequence nested to any depth, walks it
  depth first and left to right through every level, and appends each string it meets,
  unchanged and unchecked, to the end of the list.
\<close>

theorem add_flattens_every_level: "add p q = q @ fragments p"
proof (induction p arbitrary: q)
  case (Fragment s)
  show ?case by simp
next
  case (Sequence elements)
  then show ?case by (simp add: fold_add_fragments)
qed

text \<open>
  Claim C8 as stated fails: a sequence inside a sequence is accepted and flattened, where
  one level of flattening would not support it.
\<close>

theorem add_one_level_counterexample:
  "add (Sequence [Sequence [Fragment ''a''], Fragment ''b'']) [] = [''a'', ''b''] \<and>
   spec_add_one_level (Sequence [Sequence [Fragment ''a''], Fragment ''b'']) [] = None"
  by simp

section \<open>Properties of the Transaction\<close>

lemma post_request_used [simp]: "post_request (t\<lparr>used := b\<rparr>) = post_request t"
  by (simp add: post_request_def request_headers_def)

lemma delete_request_used [simp]: "delete_request (t\<lparr>used := b\<rparr>) = delete_request t"
  by (simp add: delete_request_def request_headers_def)

lemma commit_request_used [simp]: "commit_request (t\<lparr>used := b\<rparr>) u = commit_request t u"
  by (simp add: commit_request_def request_headers_def)

lemma post_not_delete: "post_request t \<noteq> delete_request t'"
  by (simp add: post_request_def delete_request_def)

lemma post_not_commit: "post_request t \<noteq> commit_request t' u"
  by (simp add: post_request_def commit_request_def)

lemma processTransaction_txn: "txn (processTransaction e t) = t\<lparr>used := True\<rparr>"
  by (simp add: processTransaction_def processTransaction_begin_def)

lemma processTransaction_trace:
  "trace (processTransaction e t) =
     Fetch (post_request t) # snd (processTransaction_callbacks e (t\<lparr>used := True\<rparr>))"
  by (simp add: processTransaction_def processTransaction_begin_def)

lemma processTransaction_settled:
  "settled (processTransaction e t) = fst (processTransaction_callbacks e (t\<lparr>used := True\<rparr>))"
  by (simp add: processTransaction_def processTransaction_begin_def)


lemma execute_settled:
  "network_protocol_runs e t \<Longrightarrow> settled (execute e t) = settled (processTransaction e t)"
  by (auto simp: network_protocol_runs_def execute_def split: if_splits option.splits sum.splits)

lemma execute_fetches:
  "network_protocol_runs e t \<Longrightarrow>
     filter is_Fetch (trace (execute e t)) = filter is_Fetch (trace (processTransaction e t))"
  by (auto simp: network_protocol_runs_def execute_def split: if_splits option.splits sum.splits)

lemma execute_txn:
  "network_protocol_runs e t \<Longrightarrow> txn (execute e t) = t\<lparr>used := True\<rparr>"
  by (auto simp: network_protocol_runs_def execute_def processTransaction_txn
      split: if_splits option.splits sum.splits)

lemma Fetch_in_trace_runs:
  "list_ex is_Fetch (trace (execute e t)) \<Longrightarrow> network_protocol_runs e t"
  by (auto simp: network_protocol_runs_def execute_def split: if_splits option.splits sum.splits)

lemma used_execute: "used t \<Longrightarrow> used (txn (execute e t))"
  by (simp add: execute_def processTransaction_txn split: option.splits sum.splits)

lemma used_after_call: "used t \<Longrightarrow> used (after_call c t)"
  by (cases c) (simp_all add: addQuery_def cacheable_def used_execute)

lemma used_fold_after_call: "used t \<Longrightarrow> used (fold after_call cs t)"
  by (induction cs arbitrary: t) (simp_all add: used_after_call)

lemma addQuery_used: "used t \<Longrightarrow> addQuery queryBuilder params t = Inl ReuseError"
  by (simp add: addQuery_def ReuseError_def)

lemma example_transaction_None:
  "example_transaction None =
    \<lparr>used = False, auth = [], cacher = None, cached = False, cachePrefix = [],
     cacheKey = [], cacheDuration = 0,
     transactionUrl = ''http://127.0.0.1:7474/db/data/transaction'',
     statements = [\<lparr>statement = ''RETURN 1'', parameters = Obj []\<rparr>],
     cachable = Undefined\<rparr>"
  by (simp add: example_transaction_def new_Transaction_def addQuery_def toString_def trim_def
      is_space_def)

text \<open>
  Claim C1. The synchronous part of \<^verbatim>\<open>_processTransaction\<close> leaves \<^verbatim>\<open>used\<close> true, before
  any answer to the request is looked at and whatever the answers will be; the callbacks
  do not change the transaction; and after that, whatever calls are made on the
  transaction in between, \<^verbatim>\<open>addQuery\<close> fails with ReuseError. The same holds after any
  \<^verbatim>\<open>execute\<close> that sent a request.
\<close>

theorem used_once_network_begins:
  "used (fst (processTransaction_begin t)) \<and>
   txn (processTransaction e t) = fst (processTransaction_begin t) \<and>
   addQuery queryBuilder params (fold after_call calls (txn (processTransaction e t))) =
     Inl ReuseError \<and>
   (list_ex is_Fetch (trace (execute e t)) \<longrightarrow>
      used (txn (execute e t)) \<and>
      addQuery queryBuilder params (fold after_call calls (txn (execute e t))) = Inl ReuseError)"
proof -
  have b: "used (fst (processTransaction_begin t))"
    by (simp add: processTransaction_begin_def)
  have p: "txn (processTransaction e t) = fst (processTransaction_begin t)"
    by (simp add: processTransaction_def)
  from b p have "used (txn (processTransaction e t))" by simp
  then have a: "addQuery queryBuilder params (fold after_call calls (txn (processTransaction e t))) =
     Inl ReuseError"
    by (simp add: addQuery_used used_fold_after_call)
  have x: "used (txn (execute e t)) \<and>
      addQuery queryBuilder params (fold after_call calls (txn (execute e t))) = Inl ReuseError"
    if "list_ex is_Fetch (trace (execute e t))"
  proof -
    from that have "network_protocol_runs e t" by (rule Fetch_in_trace_runs)
    then have "used (txn (execute e t))" by (simp add: execute_txn)
    then show ?thesis by (simp add: addQuery_used used_fold_after_call)
  qed
  from b p a x show ?thesis by blast
qed

theorem used_once_network_begins_witness:
  "list_ex is_Fetch (trace (execute \<lparr>fetch = not_found_fetch, global_cacher = None\<rparr> (example_transaction None))) \<and>
   used (txn (execute \<lparr>fetch = not_found_fetch, global_cacher = None\<rparr> (example_transaction None))) \<and>
   addQuery [''RETURN 2''] (Obj [])
     (fold after_call [Cacheable ''p'' ''k'' 1]
        (txn (execute \<lparr>fetch = not_found_fetch, global_cacher = None\<rparr> (example_transaction None)))) =
     Inl ReuseError"
proof -
  have f: "list_ex is_Fetch
      (trace (execute \<lparr>fetch = not_found_fetch, global_cacher = None\<rparr> (example_transaction None)))"
    by (simp add: example_transaction_None execute_def processTransaction_trace)
  with used_once_network_begins
    [of "example_transaction None" "\<lparr>fetch = not_found_fetch, global_cacher = None\<rparr>"
        "[''RETURN 2'']" "Obj []" "[Cacheable ''p'' ''k'' 1]"]
  show ?thesis by blast
qed

lemma processTransaction_failed_status:
  assumes "fetch e (post_request t) = Inr res"
    and "status res \<noteq> 200" and "status res \<noteq> 201"
  shows "settled (processTransaction e t) = Rejected (Error (statusText res))"
    and "trace (processTransaction e t) = [Fetch (post_request t), Fetch (delete_request t)]"
  using assms
  by (simp_all add: processTransaction_settled processTransaction_trace
      processTransaction_callbacks_def on_response_def HTTP_OK_def HTTP_CREATED_def)

text \<open>
  Claim C4. When the batch request of a run is answered with a status other than 200 and
  201, the run sends exactly two requests, the batch POST and then a DELETE to the same
  URL; the promise is rejected with TransactionFailedError carrying the status text of
  the answer; and the answer to the DELETE changes nothing of the run.
\<close>

theorem failed_status_rolls_back:
  assumes "Fetch (post_request t) \<in> set (trace (execute e t))"
    and "fetch e (post_request t) = Inr res"
    and "status res \<noteq> 200" and "status res \<noteq> 201"
  shows "settled (execute e t) = Rejected (TransactionFailedError (statusText res)) \<and>
         filter is_Fetch (trace (execute e t)) = [Fetch (post_request t), Fetch (delete_request t)] \<and>
         url (delete_request t) = url (post_request t) \<and>
         http_method (delete_request t) = ''delete'' \<and>
         (\<forall>answer. execute (e\<lparr>fetch := (fetch e)(delete_request t := answer)\<rparr>) t = execute e t)"
proof -
  from assms(1) have "list_ex is_Fetch (trace (execute e t))"
    unfolding list_ex_iff using is_Fetch.simps(1) by blast
  then have runs: "network_protocol_runs e t" by (rule Fetch_in_trace_runs)
  have s: "settled (execute e t) = Rejected (TransactionFailedError (statusText res))"
    using runs assms(2-4)
    by (simp add: execute_settled processTransaction_failed_status TransactionFailedError_def)
  have f: "filter is_Fetch (trace (execute e t)) = [Fetch (post_request t), Fetch (delete_request t)]"
    using runs assms(2-4)
    by (simp add: execute_fetches processTransaction_failed_status)
  have u: "url (delete_request t) = url (post_request t) \<and> http_method (delete_request t) = ''delete''"
    by (simp add: delete_request_def post_request_def)
  have i: "execute (e\<lparr>fetch := (fetch e)(delete_request t := answer)\<rparr>) t = execute e t" for answer
  proof -
    let ?e = "e\<lparr>fetch := (fetch e)(delete_request t := answer)\<rparr>"
    have p: "fetch ?e (post_request t) = Inr res"
      using assms(2) post_not_delete [of t t] by simp
    have "processTransaction ?e t = processTransaction e t"
      using p assms(2-4)
      by (simp add: processTransaction_def processTransaction_begin_def
          processTransaction_callbacks_def on_response_def HTTP_OK_def HTTP_CREATED_def)
    then show ?thesis by (simp add: execute_def split: option.splits sum.splits)
  qed
  from s f u i show ?thesis by blast
qed

theorem failed_status_rolls_back_witness:
  "Fetch (post_request (example_transaction None)) \<in>
     set (trace (execute \<lparr>fetch = not_found_fetch, global_cacher = None\<rparr> (example_transaction None))) \<and>
   not_found_fetch (post_request (example_transaction None)) =
     Inr \<lparr>status = 404, statusText = ''Not Found'', json = Inl (Error ''invalid json'')\<rparr> \<and>
   settled (execute \<lparr>fetch = not_found_fetch, global_cacher = None\<rparr> (example_transaction None)) =
     Rejected (TransactionFailedError ''Not Found'') \<and>
   filter is_Fetch
     (trace (execute \<lparr>fetch = not_found_fetch, global_cacher = None\<rparr> (example_transaction None))) =
     [Fetch (post_request (example_transaction None)),
      Fetch (delete_request (example_transaction None))]"
proof -
  let ?e = "\<lparr>fetch = not_found_fetch, global_cacher = None\<rparr>"
  let ?t = "example_transaction None"
  let ?res = "\<lparr>status = 404, statusText = ''Not Found'', json = Inl (Error ''invalid json'')\<rparr>"
  have h1: "Fetch (post_request ?t) \<in> set (trace (execute ?e ?t))"
    by (simp add: example_transaction_None execute_def processTransaction_trace)
  have h2: "fetch ?e (post_request ?t) = Inr ?res"
    by (simp add: not_found_fetch_def)
  have h3: "status ?res \<noteq> 200" and h4: "status ?res \<noteq> 201"
    by simp_all
  from failed_status_rolls_back [OF h1 h2 h3 h4] h1 h2 show ?thesis by simp
qed

lemma processTransaction_cypher_errors:
  assumes "fetch e (post_request t) = Inr res"
    and "status res = 200 \<or> status res = 201"
    and "json res = Inr js"
    and "get_prop js ''errors'' = Inr (Arr errs)"
    and "errs \<noteq> []"
  shows "settled (processTransaction e t) = Rejected (Thrown (Arr errs))"
    and "trace (processTransaction e t) = [Fetch (post_request t)]"
  using assms
  by (auto simp: processTransaction_settled processTransaction_trace
      processTransaction_callbacks_def on_response_def on_json_def HTTP_OK_def HTTP_CREATED_def)

text \<open>
  Claim C5. When the batch request of a run is answered with status 200 or 201 and the
  parsed body has a non-empty \<^verbatim>\<open>errors\<close> array, the promise is rejected with CypherError
  carrying that array as it is, the batch request is the only request the run sends, and
  in particular no request goes to a commit URL.
\<close>

theorem cypher_errors_reject_without_commit:
  assumes "Fetch (post_request t) \<in> set (trace (execute e t))"
    and "fetch e (post_request t) = Inr res"
    and "status res = 200 \<or> status res = 201"
    and "json res = Inr js"
    and "get_prop js ''errors'' = Inr (Arr errs)"
    and "errs \<noteq> []"
  shows "settled (execute e t) = Rejected (CypherError (Arr errs)) \<and>
         filter is_Fetch (trace (execute e t)) = [Fetch (post_request t)] \<and>
         (\<forall>commit. Fetch (commit_request t commit) \<notin> set (trace (execute e t)))"
proof -
  from assms(1) have "list_ex is_Fetch (trace (execute e t))"
    unfolding list_ex_iff using is_Fetch.simps(1) by blast
  then have runs: "network_protocol_runs e t" by (rule Fetch_in_trace_runs)
  have s: "settled (execute e t) = Rejected (CypherError (Arr errs))"
    using runs processTransaction_cypher_errors(1) [OF assms(2-6)]
    by (simp add: execute_settled CypherError_def)
  have f: "filter is_Fetch (trace (execute e t)) = [Fetch (post_request t)]"
    using runs processTransaction_cypher_errors(2) [OF assms(2-6)]
    by (simp add: execute_fetches)
  have c: "Fetch (commit_request t commit) \<notin> set (trace (execute e t))" for commit
  proof
    assume "Fetch (commit_request t commit) \<in> set (trace (execute e t))"
    then have "Fetch (commit_request t commit) \<in> set (filter is_Fetch (trace (execute e t)))"
      by simp
    with f have "commit_request t commit = post_request t" by simp
    with post_not_commit [of t t commit] show False by simp
  qed
  from s f c show ?thesis by blast
qed

theorem cypher_errors_reject_without_commit_witness:
  "Fetch (post_request (example_transaction None)) \<in>
     set (trace (execute \<lparr>fetch = cypher_error_fetch, global_cacher = None\<rparr> (example_transaction None))) \<and>
   settled (execute \<lparr>fetch = cypher_error_fetch, global_cacher = None\<rparr> (example_transaction None)) =
     Rejected (CypherError (Arr [Obj [(''code'', Str ''X'')]])) \<and>
   filter is_Fetch
     (trace (execute \<lparr>fetch = cypher_error_fetch, global_cacher = None\<rparr> (example_transaction None))) =
     [Fetch (post_request (example_transaction None))]"
proof -
  let ?e = "\<lparr>fetch = cypher_error_fetch, global_cacher = None\<rparr>"
  let ?t = "example_transaction None"
  let ?js = "Obj [(''results'', Arr []), (''errors'', Arr [Obj [(''code'', Str ''X'')]])]"
  let ?res = "\<lparr>status = 200, statusText = ''OK'', json = Inr ?js\<rparr>"
  have h1: "Fetch (post_request ?t) \<in> set (trace (execute ?e ?t))"
    by (simp add: example_transaction_None execute_def processTransaction_trace)
  have h2: "fetch ?e (post_request ?t) = Inr ?res"
    by (simp add: cypher_error_fetch_def)
  have h3: "status ?res = 200 \<or> status ?res = 201" by simp
  have h4: "json ?res = Inr ?js" by simp
  have h5: "get_prop ?js ''errors'' = Inr (Arr [Obj [(''code'', Str ''X'')]])"
    by (simp add: lookup_def)
  have h6: "[Obj [(''code'', Str ''X'')]] \<noteq> []" by simp
  from cypher_errors_reject_without_commit [OF h1 h2 h3 h4 h5 h6] h1 show ?thesis by simp
qed

subsection \<open>The cache read of \<^verbatim>\<open>execute\<close>\<close>

text \<open>
  With a cacher bound to the global identifier, a transaction marked as cached resolves
  from a cache hit without a request, and goes on to \<^verbatim>\<open>_processTransaction\<close> after a
  rejected read, whose reason is only logged. With the identifier unbound there is no
  cache read at all.
\<close>

lemma execute_unbound_cacher:
  "cached t \<Longrightarrow> global_cacher e = None \<Longrightarrow>
   execute e t = \<lparr>txn = t, settled = Rejected (ReferenceError ''cacher''), trace = []\<rparr>"
  by (simp add: execute_def)

lemma execute_cache_hit:
  "cached t \<Longrightarrow> global_cacher e = Some c \<Longrightarrow>
   getData c (cachePrefix t) (cacheKey t) = Inr cachedData \<Longrightarrow>
   execute e t =
     \<lparr>txn = t, settled = Resolved cachedData,
      trace = [SetCachePrefix (cachePrefix t), GetData (cacheKey t)]\<rparr>"
  by (simp add: execute_def)

lemma execute_cache_miss:
  "cached t \<Longrightarrow> global_cacher e = Some c \<Longrightarrow>
   getData c (cachePrefix t) (cacheKey t) = Inl reason \<Longrightarrow>
   settled (execute e t) = settled (processTransaction e t) \<and>
   trace (execute e t) =
     [SetCachePrefix (cachePrefix t), GetData (cacheKey t), ConsoleLog reason] @
     trace (processTransaction e t)"
  by (simp add: execute_def)

lemma example_cached_transaction_eq:
  "example_cached_transaction c =
    \<lparr>used = False, auth = [], cacher = Some c, cached = True, cachePrefix = ''students'',
     cacheKey = ''all'', cacheDuration = 60,
     transactionUrl = ''http://127.0.0.1:7474/db/data/transaction'',
     statements = [\<lparr>statement = ''RETURN 1'', parameters = Obj []\<rparr>],
     cachable = Undefined\<rparr>"
  by (simp add: example_cached_transaction_def example_transaction_def new_Transaction_def
      addQuery_def cacheable_def toString_def trim_def is_space_def)

text \<open>
  Claim C2, at a failing input. The module is used as it stands (no global \<^verbatim>\<open>cacher\<close>), the
  transaction was marked with \<^verbatim>\<open>cacheable\<close> and the cache of its own handle holds the
  entry: \<^verbatim>\<open>execute\<close> rejects with a ReferenceError and does nothing else, neither a cache
  read nor a request.
\<close>

theorem cached_execute_reads_unbound_cacher:
  "cached (example_cached_transaction cache_hit) \<and>
   getData cache_hit ''students'' ''all'' = Inr (Arr [Str ''cached'']) \<and>
   execute \<lparr>fetch = example_fetch, global_cacher = None\<rparr> (example_cached_transaction cache_hit) =
     \<lparr>txn = example_cached_transaction cache_hit,
      settled = Rejected (ReferenceError ''cacher''), trace = []\<rparr>"
  by (simp add: example_cached_transaction_eq execute_def cache_hit_def)

subsection \<open>The cache write after the commit\<close>

text \<open>
  \<^verbatim>\<open>cachable\<close> stays \<^verbatim>\<open>undefined\<close> under every call, so no run of a transaction that the
  class built writes to the cache. A commit answered with 200 resolves with the results
  of the first answer.
\<close>

lemma cachable_after_call: "cachable (after_call c t) = cachable t"
  by (cases c)
    (simp_all add: addQuery_def cacheable_def execute_def processTransaction_txn
      split: option.splits sum.splits)

lemma cachable_never_assigned:
  "cachable (fold after_call cs (new_Transaction transactionUrl' auth' cacher')) = Undefined"
proof -
  have "cachable (fold after_call cs t) = cachable t" for t
    by (induction cs arbitrary: t) (simp_all add: cachable_after_call)
  then show ?thesis by (simp add: new_Transaction_def)
qed

lemma on_commit_response_no_SetData:
  "\<not> truthy (cachable t) \<Longrightarrow> \<not> list_ex is_SetData (snd (on_commit_response e t result res))"
  by (simp add: on_commit_response_def)

lemma on_json_no_SetData:
  "\<not> truthy (cachable t) \<Longrightarrow> \<not> list_ex is_SetData (snd (on_json e t js))"
  by (auto simp: on_json_def on_commit_response_no_SetData
      split: sum.splits option.splits bool.splits)

lemma processTransaction_no_SetData:
  "\<not> truthy (cachable t) \<Longrightarrow> \<not> list_ex is_SetData (trace (processTransaction e t))"
  by (auto simp: processTransaction_trace processTransaction_callbacks_def on_response_def
      on_json_no_SetData split: sum.splits)

lemma execute_no_SetData:
  "\<not> truthy (cachable t) \<Longrightarrow> \<not> list_ex is_SetData (trace (execute e t))"
  by (auto simp: execute_def processTransaction_no_SetData split: option.splits sum.splits)

lemma processTransaction_committed:
  assumes "fetch e (post_request t) = Inr res"
    and "status res = 200 \<or> status res = 201"
    and "json res = Inr js"
    and "get_prop js ''errors'' = Inr (Arr [])"
    and "get_prop js ''results'' = Inr result"
    and "get_prop js ''commit'' = Inr commit"
    and "fetch e (commit_request t commit) = Inr res'"
    and "status res' = 200"
    and "\<not> truthy (cachable t)"
  shows "settled (processTransaction e t) = Resolved result"
    and "trace (processTransaction e t) = [Fetch (post_request t), Fetch (commit_request t commit)]"
  using assms
  by (auto simp: processTransaction_settled processTransaction_trace
      processTransaction_callbacks_def on_response_def on_json_def on_commit_response_def
      HTTP_OK_def HTTP_CREATED_def)

lemma execute_never_writes_cache:
  "\<not> list_ex is_SetData
      (trace (execute e (fold after_call cs (new_Transaction transactionUrl' auth' cacher'))))"
  by (simp add: execute_no_SetData cachable_never_assigned)

lemma execute_committed:
  assumes "Fetch (post_request t) \<in> set (trace (execute e t))"
    and "fetch e (post_request t) = Inr res"
    and "status res = 200 \<or> status res = 201"
    and "json res = Inr js"
    and "get_prop js ''errors'' = Inr (Arr [])"
    and "get_prop js ''results'' = Inr result"
    and "get_prop js ''commit'' = Inr commit"
    and "fetch e (commit_request t commit) = Inr res'"
    and "status res' = 200"
    and "\<not> truthy (cachable t)"
  shows "settled (execute e t) = Resolved result"
proof -
  from assms(1) have "list_ex is_Fetch (trace (execute e t))"
    unfolding list_ex_iff using is_Fetch.simps(1) by blast
  then have "network_protocol_runs e t" by (rule Fetch_in_trace_runs)
  then show ?thesis
    using processTransaction_committed(1) [OF assms(2-10)] by (simp add: execute_settled)
qed

text \<open>
  Claim C3, at a failing input. A cacher is bound to the global identifier and misses, the
  transaction was marked with \<^verbatim>\<open>cacheable\<close>, the batch is answered with 201 and no errors,
  the commit with 200: \<^verbatim>\<open>execute\<close> resolves with the results, and the run has the cache
  read, the two requests and no cache write.
\<close>

theorem cached_commit_writes_no_cache:
  "cached (example_cached_transaction cache_miss) \<and>
   settled (execute \<lparr>fetch = example_fetch, global_cacher = Some cache_miss\<rparr>
              (example_cached_transaction cache_miss)) = Resolved example_results \<and>
   \<not> list_ex is_SetData
       (trace (execute \<lparr>fetch = example_fetch, global_cacher = Some cache_miss\<rparr>
                 (example_cached_transaction cache_miss))) \<and>
   trace (execute \<lparr>fetch = example_fetch, global_cacher = Some cache_miss\<rparr>
              (example_cached_transaction cache_miss)) =
     [SetCachePrefix ''students'', GetData ''all'', ConsoleLog (Error ''not found''),
      Fetch (post_request (example_cached_transaction cache_miss)),
      Fetch (commit_request (example_cached_transaction cache_miss)
               (Str ''http://127.0.0.1:7474/db/data/transaction/1/commit''))]"
proof -
  let ?e = "\<lparr>fetch = example_fetch, global_cacher = Some cache_miss\<rparr>"
  let ?t = "example_cached_transaction cache_miss"
  let ?commit = "Str ''http://127.0.0.1:7474/db/data/transaction/1/commit''"
  let ?js = "Obj [(''commit'', ?commit), (''results'', example_results), (''errors'', Arr [])]"
  let ?res = "\<lparr>status = 201, statusText = ''Created'', json = Inr ?js\<rparr>"
  let ?res' = "\<lparr>status = 200, statusText = ''OK'',
                 json = Inr (Obj [(''results'', Arr []), (''errors'', Arr [])])\<rparr>"
  have c: "cached ?t" and u: "\<not> truthy (cachable ?t)"
    and p: "cachePrefix ?t = ''students''" and k: "cacheKey ?t = ''all''"
    by (simp_all add: example_cached_transaction_eq)
  have m: "getData cache_miss (cachePrefix ?t) (cacheKey ?t) = Inl (Error ''not found'')"
    by (simp add: cache_miss_def)
  have f1: "fetch ?e (post_request ?t) = Inr ?res"
    by (simp add: example_fetch_def post_request_def)
  have f2: "fetch ?e (commit_request ?t ?commit) = Inr ?res'"
    by (simp add: example_fetch_def commit_request_def)
  have "settled (processTransaction ?e ?t) = Resolved example_results"
    and "trace (processTransaction ?e ?t) = [Fetch (post_request ?t), Fetch (commit_request ?t ?commit)]"
    using processTransaction_committed [OF f1 _ _ _ _ _ f2 _ u, of ?js example_results]
    by (simp_all add: lookup_def)
  with execute_cache_miss [OF c _ m, of ?e] c p k show ?thesis by simp
qed

section \<open>Properties of the response helpers\<close>

text \<open>
  Claim C10. When the first entry of the results has a non-empty \<^verbatim>\<open>data\<close> array and a
  \<^verbatim>\<open>columns\<close> array whose length is not 1, \<^verbatim>\<open>getSimpleData\<close> returns \<^verbatim>\<open>null\<close>, whatever
  the rows are (also rows whose cells could not be read without a throw).
\<close>

theorem multi_column_returns_null:
  assumes "get_prop entry ''data'' = Inr (Arr (row # rows))"
    and "get_prop entry ''columns'' = Inr (Arr columns)"
    and "length columns \<noteq> 1"
  shows "getSimpleData (Arr (entry # rest)) = Inr Null"
  using assms by (cases entry) (auto simp: getSimpleData_def and_then_def split: if_splits)

theorem multi_column_returns_null_witness:
  "get_prop (Obj [(''columns'', Arr [Str ''a'', Str ''b'']), (''data'', Arr [Null])]) ''data'' =
     Inr (Arr [Null]) \<and>
   get_prop (Obj [(''columns'', Arr [Str ''a'', Str ''b'']), (''data'', Arr [Null])]) ''columns'' =
     Inr (Arr [Str ''a'', Str ''b'']) \<and>
   length [Str ''a'', Str ''b''] \<noteq> 1 \<and>
   getSimpleData (Arr [Obj [(''columns'', Arr [Str ''a'', Str ''b'']), (''data'', Arr [Null])]]) =
     Inr Null"
proof -
  let ?entry = "Obj [(''columns'', Arr [Str ''a'', Str ''b'']), (''data'', Arr [Null])]"
  have h1: "get_prop ?entry ''data'' = Inr (Arr [Null])" by (simp add: lookup_def)
  have h2: "get_prop ?entry ''columns'' = Inr (Arr [Str ''a'', Str ''b''])" by (simp add: lookup_def)
  have h3: "length [Str ''a'', Str ''b''] \<noteq> 1" by simp
  from multi_column_returns_null [OF h1 h2 h3, of "[]"] h1 h2 h3 show ?thesis by blast
qed

subsection \<open>\<^verbatim>\<open>getSimpleData\<close> on a single column\<close>

lemma getSimpleData_missing_entry: "getSimpleData (Arr []) = Inr Null"
  by (simp add: getSimpleData_def and_then_def)

lemma getSimpleData_no_data:
  "get_prop entry ''data'' = Inr Undefined \<Longrightarrow> getSimpleData (Arr (entry # rest)) = Inr Null"
  by (simp add: getSimpleData_def and_then_def)

lemma getSimpleData_no_rows:
  "get_prop entry ''data'' = Inr (Arr []) \<Longrightarrow> getSimpleData (Arr (entry # rest)) = Inr Null"
  by (simp add: getSimpleData_def and_then_def)

lemma getSimpleData_wrapped_row:
  assumes "get_prop entry ''data'' = Inr (Arr (Obj r # rows))"
    and "get_prop entry ''columns'' = Inr (Arr [c])"
    and "lookup r ''row'' = Arr (cell # cells)"
  shows "getSimpleData (Arr (entry # rest)) = Inr cell"
  using assms by (cases entry) (auto simp: getSimpleData_def and_then_def)

lemma getSimpleData_bare_row:
  assumes "get_prop entry ''data'' = Inr (Arr (Arr cells # rows))"
    and "get_prop entry ''columns'' = Inr (Arr [c])"
  shows "getSimpleData (Arr (entry # rest)) = Inl TypeError"
  using assms by (cases entry) (auto simp: getSimpleData_def and_then_def)

text \<open>
  Claim C6, at a failing input. With one column and the row given as a bare array,
  \<^verbatim>\<open>getSimpleData\<close> throws a TypeError (a bare array has the type \<^verbatim>\<open>'object'\<close> too, so its
  \<^verbatim>\<open>row\<close> property is read); with the same cell in a \<^verbatim>\<open>{row: [...]}\<close> object it returns
  the cell.
\<close>

theorem getSimpleData_bare_array_throws:
  "getSimpleData (Arr [Obj [(''columns'', Arr [Str ''n'']), (''data'', Arr [Arr [Num 42]])]]) =
     Inl TypeError \<and>
   getSimpleData (Arr [Obj [(''columns'', Arr [Str ''n'']), (''data'', Arr [Obj [(''row'', Arr [Num 42])]])]]) =
     Inr (Num 42)"
  by (simp add: getSimpleData_def and_then_def lookup_def)

subsection \<open>\<^verbatim>\<open>toProps\<close>\<close>

lemma typeof_not_array: "typeof v \<noteq> ''array''"
  by (cases v) simp_all

lemma toProps_element_error:
  "toProps_element obj k = Inl err \<Longrightarrow> err = UnsupportedPropertyTypeError"
  by (auto simp: toProps_element_def UnsupportedPropertyTypeError_def split: if_splits)

lemma toProps_element_array:
  "lookup obj k = Arr xs \<Longrightarrow> toProps_element obj k = Inl UnsupportedPropertyTypeError"
  by (simp add: toProps_element_def UnsupportedPropertyTypeError_def)

lemma toProps_forEach_array:
  "k \<in> set objKeys \<Longrightarrow> lookup obj k = Arr xs \<Longrightarrow>
   toProps_forEach obj objKeys ret = Inl UnsupportedPropertyTypeError"
proof (induction objKeys arbitrary: ret)
  case Nil
  then show ?case by simp
next
  case (Cons k' objKeys)
  show ?case
  proof (cases "toProps_element obj k'")
    case (Inl err)
    then show ?thesis by (simp add: and_then_def toProps_element_error)
  next
    case (Inr s)
    with Cons.prems have "k \<noteq> k'" by (auto simp: toProps_element_array)
    with Cons Inr show ?thesis by (simp add: and_then_def)
  qed
qed

lemma toProps_array:
  assumes "(k, Arr xs) \<in> set obj" and "distinct (map fst obj)"
  shows "toProps obj = Inl UnsupportedPropertyTypeError"
proof -
  from assms have "lookup obj k = Arr xs" by (simp add: lookup_def)
  moreover from assms(1) have "k \<in> set (map fst obj)" by force
  ultimately show ?thesis by (simp add: toProps_def and_then_def toProps_forEach_array)
qed

text \<open>
  Claim C9, at a failing input. An object with an array value makes \<^verbatim>\<open>toProps\<close> throw
  "property type not supported" (no value has the type \<^verbatim>\<open>'array'\<close>); the specification's
  example without an array renders as stated.
\<close>

theorem toProps_array_throws:
  "toProps [(''name'', Str ''A''), (''tags'', Arr [])] = Inl UnsupportedPropertyTypeError \<and>
   toProps [(''name'', Str ''A''), (''grade'', Num 9)] = Inr ''name:\"A\", grade:9''"
  by (simp add: toProps_def toProps_element_def and_then_def lookup_def
      UnsupportedPropertyTypeError_def number_to_string_def digits.simps)

end
